theory Spec2Isabelle
  imports Main
begin

section \<open>Text primitives of the JavaScript sources\<close>

text \<open>
  Strings are modelled as lists of 8-bit characters (the Latin-1 range of JavaScript's
  UTF-16 code units); \<open>length\<close> is the JavaScript \<open>.length\<close> on that range.
\<close>

definition NL :: char where "NL = CHR 0x0A"
definition TAB :: char where "TAB = CHR 0x09"
definition FF :: char where "FF = CHR 0x0C"

text \<open>The characters removed by \<open>String.prototype.trim\<close> (WhiteSpace and LineTerminator).\<close>

definition isWhitespace :: "char \<Rightarrow> bool" where
  "isWhitespace c = (c = CHR 0x09 \<or> c = CHR 0x0A \<or> c = CHR 0x0B \<or> c = CHR 0x0C
     \<or> c = CHR 0x0D \<or> c = CHR 0x20 \<or> c = CHR 0xA0)"

definition isDigit :: "char \<Rightarrow> bool" where
  "isDigit c = (let n = (of_char c :: nat) in 48 \<le> n \<and> n \<le> 57)"

definition isUpper :: "char \<Rightarrow> bool" where
  "isUpper c = (let n = (of_char c :: nat) in 65 \<le> n \<and> n \<le> 90)"

definition isLower :: "char \<Rightarrow> bool" where
  "isLower c = (let n = (of_char c :: nat) in 97 \<le> n \<and> n \<le> 122)"

text \<open>The regular-expression class \<open>\w\<close>.\<close>

definition isWordChar :: "char \<Rightarrow> bool" where
  "isWordChar c = (isDigit c \<or> isUpper c \<or> isLower c \<or> c = CHR ''_'')"

definition trim :: "string \<Rightarrow> string" where
  "trim s = rev (dropWhile isWhitespace (rev (dropWhile isWhitespace s)))"

fun startsWith :: "string \<Rightarrow> string \<Rightarrow> bool" where
  "startsWith s [] = True"
| "startsWith [] (p # ps) = False"
| "startsWith (c # cs) (p # ps) = (c = p \<and> startsWith cs ps)"

text \<open>\<open>String.prototype.includes\<close>: substring containment.\<close>

fun includesStr :: "string \<Rightarrow> string \<Rightarrow> bool" where
  "includesStr [] sub = (sub = [])"
| "includesStr (c # cs) sub = (startsWith (c # cs) sub \<or> includesStr cs sub)"

text \<open>
  \<open>toLowerCase\<close>, on the letters A to Z; the only caller lower-cases a keyword from which
  every character other than ASCII letters, digits and whitespace has been removed.
\<close>

definition toLowerChar :: "char \<Rightarrow> char" where
  "toLowerChar c = (if isUpper c then char_of (of_char c + (32 :: nat)) else c)"

definition toLowerCase :: "string \<Rightarrow> string" where
  "toLowerCase s = map toLowerChar s"

definition digitChar :: "nat \<Rightarrow> char" where
  "digitChar d = char_of (48 + d)"

text \<open>Decimal rendering of a non-negative integer, as template literals print it.\<close>

fun showNat :: "nat \<Rightarrow> string" where
  "showNat n = (if n < 10 then [digitChar n] else showNat (n div 10) @ [digitChar (n mod 10)])"

declare showNat.simps [simp del]

section \<open>Regular-expression operations used by the handlers\<close>

text \<open>\<open>.replace(/\n{3,}/g, '\n\n')\<close>: every maximal run of three or more newlines becomes two.\<close>

function collapseNewlines :: "string \<Rightarrow> string" where
  "collapseNewlines [] = []"
| "collapseNewlines (c # cs) =
     (if c = NL then
        (let run = takeWhile (\<lambda>x. x = NL) (c # cs);
             rest = dropWhile (\<lambda>x. x = NL) cs
         in (if 3 \<le> length run then [NL, NL] else run) @ collapseNewlines rest)
      else c # collapseNewlines cs)"
  by pat_completeness auto
termination
  by (relation "measure length") (auto simp: less_Suc_eq_le length_dropWhile_le)

definition isSpaceTab :: "char \<Rightarrow> bool" where
  "isSpaceTab c = (c = CHR '' '' \<or> c = TAB)"

text \<open>\<open>.replace(/[ \t]+/g, ' ')\<close>: every maximal run of spaces and tabs becomes one space.\<close>

function collapseSpaces :: "string \<Rightarrow> string" where
  "collapseSpaces [] = []"
| "collapseSpaces (c # cs) =
     (if isSpaceTab c then CHR '' '' # collapseSpaces (dropWhile isSpaceTab cs)
      else c # collapseSpaces cs)"
  by pat_completeness auto
termination
  by (relation "measure length") (auto simp: less_Suc_eq_le length_dropWhile_le)

text \<open>
  \<open>.replace(/(\w)-\n(\w)/g, '$1$2')\<close>: matches are found left to right and do not
  overlap; the scan resumes after the second word character of a match.
\<close>

fun joinHyphenated :: "string \<Rightarrow> string" where
  "joinHyphenated (a # h # n # b # rest) =
     (if isWordChar a \<and> h = CHR ''-'' \<and> n = NL \<and> isWordChar b
      then a # b # joinHyphenated rest
      else a # joinHyphenated (h # n # b # rest))"
| "joinHyphenated (a # rest) = a # joinHyphenated rest"
| "joinHyphenated [] = []"

text \<open>\<open>.replace(/\f/g, '\n\n')\<close>\<close>

definition replaceFormFeed :: "string \<Rightarrow> string" where
  "replaceFormFeed s = concat (map (\<lambda>c. if c = FF then [NL, NL] else [c]) s)"

text \<open>
  \<open>.split(sep)\<close> for a separator matching exactly one character of a class
  (\<open>split('\n')\<close>, \<open>split(/[.!?]/)\<close>): the result is never empty.
\<close>

fun splitOn :: "(char \<Rightarrow> bool) \<Rightarrow> string \<Rightarrow> string list" where
  "splitOn P [] = [[]]"
| "splitOn P (c # cs) =
     (let r = splitOn P cs in if P c then [] # r else (c # hd r) # tl r)"

text \<open>
  \<open>.split(re)\<close> for a greedy separator matching \<open>k\<close> or more characters of a class
  (\<open>/\n\n+/\<close> with \<open>k = 2\<close>, \<open>/[.!?]+/\<close> with \<open>k = 1\<close>): the separators are the
  maximal runs of at least \<open>k\<close> such characters; \<open>acc\<close> is the piece being read.
\<close>

function splitRuns :: "(char \<Rightarrow> bool) \<Rightarrow> nat \<Rightarrow> string \<Rightarrow> string \<Rightarrow> string list" where
  "splitRuns P k acc [] = [acc]"
| "splitRuns P k acc (c # cs) =
     (if P c \<and> k \<le> length (takeWhile P (c # cs))
      then acc # splitRuns P k [] (dropWhile P cs)
      else splitRuns P k (acc @ [c]) cs)"
  by pat_completeness auto
termination
  by (relation "measure (\<lambda>(P, k, acc, s). length s)")
     (auto simp: less_Suc_eq_le length_dropWhile_le)

text \<open>\<open>.join(sep)\<close>\<close>

fun joinWith :: "string \<Rightarrow> string list \<Rightarrow> string" where
  "joinWith sep [] = []"
| "joinWith sep [x] = x"
| "joinWith sep (x # y # ys) = x @ sep @ joinWith sep (y # ys)"

text \<open>\<open>.slice(i, j)\<close> with \<open>0 \<le> i \<le> j\<close>, and \<open>.substring(0, n)\<close> as \<open>take n\<close>.\<close>

definition slice :: "nat \<Rightarrow> nat \<Rightarrow> 'a list \<Rightarrow> 'a list" where
  "slice i j xs = take (j - i) (drop i xs)"

section \<open>Data model\<close>

text \<open>
  A slide object. \<open>points\<close>, \<open>imageKeyword\<close> and \<open>imageUrl\<close> may be absent
  (\<open>None\<close>); the fallback builders produce slides with a title and points only.
\<close>

record slide =
  slideTitle :: string
  points :: "string list option"
  imageKeyword :: "string option"
  imageUrl :: "string option"

record presentation =
  title :: string
  slides :: "slide list"

section \<open>PDF handler: cleaning and the text fallback builder\<close>

definition cleanExtractedText :: "string \<Rightarrow> string" where
  "cleanExtractedText text =
     (if text = [] then []
      else trim (joinWith [NL] (map trim (splitOn (\<lambda>c. c = NL)
             (replaceFormFeed (joinHyphenated (collapseSpaces (collapseNewlines text))))))))"

definition isTerminator :: "char \<Rightarrow> bool" where
  "isTerminator c = (c = CHR ''.'' \<or> c = CHR ''!'' \<or> c = CHR ''?'')"

text \<open>
  \<open>Math.ceil(a / b)\<close> on a length and a positive count. For a count of 0 the loop
  below does not run, whatever this value is.
\<close>

definition ceilDiv :: "nat \<Rightarrow> nat \<Rightarrow> nat" where
  "ceilDiv a b = (a + b - 1) div b"

text \<open>The title of one paragraph group: its first sentence, or a generic title.\<close>

definition groupTitle :: "string list \<Rightarrow> nat \<Rightarrow> string" where
  "groupTitle slideParas currentSlide =
     (let firstPara = (case slideParas of [] \<Rightarrow> [] | p # _ \<Rightarrow> p);
          firstSentence = hd (splitOn isTerminator firstPara)
      in if length firstSentence > 10 \<and> length firstSentence < 100
         then trim firstSentence
         else ''Section '' @ showNat currentSlide)"

text \<open>The bullet points of one paragraph group.\<close>

definition groupPoints :: "string list \<Rightarrow> string list" where
  "groupPoints slideParas =
     map trim (take 5 (concat (map
       (\<lambda>p. take 5 (filter (\<lambda>s. length (trim s) > 10) (splitRuns isTerminator 1 [] p)))
       slideParas)))"

text \<open>
  The \<open>for\<close> loop of \<open>textToBasicSlides\<close>: \<open>i\<close> is the paragraph index,
  \<open>currentSlide\<close> the group counter and \<open>acc\<close> the slides pushed so far.
\<close>

function buildSlides :: "string list \<Rightarrow> nat \<Rightarrow> nat \<Rightarrow> nat \<Rightarrow> slide list \<Rightarrow> slide list" where
  "buildSlides paragraphs slideCount i currentSlide acc =
     (let paragraphsPerSlide = ceilDiv (length paragraphs) slideCount in
      if i < length paragraphs \<and> length acc < slideCount then
        (let slideParas = slice i (i + paragraphsPerSlide) paragraphs;
             t = groupTitle slideParas currentSlide;
             pts = groupPoints slideParas
         in buildSlides paragraphs slideCount (i + paragraphsPerSlide) (currentSlide + 1)
              (if length pts > 0
               then acc @ [\<lparr>slideTitle = t, points = Some pts,
                             imageKeyword = None, imageUrl = None\<rparr>]
               else acc))
      else acc)"
  by pat_completeness auto
termination
proof (relation "measure (\<lambda>(ps, sc, i, cur, acc). length ps - i)")
  show "wf (measure (\<lambda>(ps, sc, i, cur, acc). length ps - i))"
    by simp
next
  fix paragraphs :: "string list" and slideCount i currentSlide :: nat
    and acc :: "slide list" and x xa xb xc
  assume x: "x = ceilDiv (length paragraphs) slideCount"
    and c: "i < length paragraphs \<and> length acc < slideCount"
  from c have "0 < length paragraphs" and "0 < slideCount"
    by auto
  then have "slideCount \<le> length paragraphs + slideCount - 1"
    by arith
  then have "1 \<le> ceilDiv (length paragraphs) slideCount"
    unfolding ceilDiv_def using \<open>0 < slideCount\<close>
    by (metis div_le_mono div_self less_numeral_extra(3))
  with x c
  show "((paragraphs, slideCount, i + x, currentSlide + 1,
          if 0 < length xb then acc @ [\<lparr>slideTitle = xa, points = Some xb,
             imageKeyword = None, imageUrl = None\<rparr>] else acc),
         paragraphs, slideCount, i, currentSlide, acc)
        \<in> measure (\<lambda>(ps, sc, i, cur, acc). length ps - i)"
    by auto
qed

declare buildSlides.simps [simp del]

text \<open>\<open>cleanText.split(/\n\n+/).filter(p => p.trim().length > 20)\<close>\<close>

definition paragraphsOf :: "string \<Rightarrow> string list" where
  "paragraphsOf cleanText =
     filter (\<lambda>p. length (trim p) > 20) (splitRuns (\<lambda>c. c = NL) 2 [] cleanText)"

text \<open>\<open>textToBasicSlides\<close>; every caller passes the slide count.\<close>

definition textToBasicSlides :: "string \<Rightarrow> nat \<Rightarrow> presentation" where
  "textToBasicSlides text slideCount =
     (let cleanText = cleanExtractedText text;
          paragraphs = paragraphsOf cleanText;
          built = buildSlides paragraphs slideCount 0 1 []
      in \<lparr>title = ''Extracted Content'',
          slides = (if length built = 0
                    then [\<lparr>slideTitle = ''Content Overview'',
                           points = Some [take 200 cleanText @ ''...''],
                           imageKeyword = None, imageUrl = None\<rparr>]
                    else built)\<rparr>)"

text \<open>
  Shapes of text used to state properties of the cleaner. \<open>hasHyphenBreak\<close>: some word
  character is followed by a hyphen, a newline and a word character.
  \<open>noOuterWhitespace\<close>: the text neither begins nor ends with a whitespace character.
\<close>

fun hasHyphenBreak :: "string \<Rightarrow> bool" where
  "hasHyphenBreak (a # h # n # b # rest) =
     ((isWordChar a \<and> h = CHR ''-'' \<and> n = NL \<and> isWordChar b)
      \<or> hasHyphenBreak (h # n # b # rest))"
| "hasHyphenBreak s = False"

definition noOuterWhitespace :: "string \<Rightarrow> bool" where
  "noOuterWhitespace s =
     (case s of [] \<Rightarrow> True | c # cs \<Rightarrow> \<not> isWhitespace c \<and> \<not> isWhitespace (last s))"

text \<open>
  Text the cleaner has nothing to do on: no run of three newlines, no tab, no run of two
  spaces, no hyphenated line break, no form feed, and neither a line nor the whole text
  begins or ends with whitespace.
\<close>

definition cleanForm :: "string \<Rightarrow> bool" where
  "cleanForm s =
     (\<not> includesStr s [NL, NL, NL] \<and> TAB \<notin> set s \<and> \<not> includesStr s ''  '' \<and>
      \<not> hasHyphenBreak s \<and> FF \<notin> set s \<and>
      list_all noOuterWhitespace (splitOn (\<lambda>c. c = NL) s) \<and> noOuterWhitespace s)"

text \<open>The specification's wording of clean text: no repeated newlines, no repeated spaces.\<close>

definition noRepeats :: "string \<Rightarrow> bool" where
  "noRepeats s = (\<not> includesStr s [NL, NL] \<and> \<not> includesStr s ''  '')"

text \<open>The first sentence of a paragraph: the text before its first sentence terminator.\<close>

definition firstSentence :: "string \<Rightarrow> string" where
  "firstSentence p = takeWhile (\<lambda>c. \<not> isTerminator c) p"

text \<open>
  The title rule of a paragraph group with first paragraph \<open>p\<close> and number \<open>n\<close>:
  the trimmed first sentence when that sentence has 11 to 99 characters, else a
  synthesized title.
\<close>

definition titleRule :: "string \<Rightarrow> nat \<Rightarrow> string" where
  "titleRule p n =
     (if 11 \<le> length (firstSentence p) \<and> length (firstSentence p) \<le> 99
      then trim (firstSentence p) else ''Section '' @ showNat n)"


text \<open>
  The paragraph groups of the builder, for paragraphs \<open>ps\<close> and slide count \<open>sc\<close>:
  group \<open>k\<close> (counted from 0) is the \<open>k\<close>-th stride of
  \<open>ceil(length ps / sc)\<close> paragraphs, and there are \<open>groupCount\<close> groups.
\<close>

definition groupOf :: "string list \<Rightarrow> nat \<Rightarrow> nat \<Rightarrow> string list" where
  "groupOf ps sc k =
     (let pps = ceilDiv (length ps) sc in slice (k * pps) (k * pps + pps) ps)"

definition groupCount :: "string list \<Rightarrow> nat \<Rightarrow> nat" where
  "groupCount ps sc = ceilDiv (length ps) (ceilDiv (length ps) sc)"

text \<open>The first paragraph of a group (the empty text for an empty group).\<close>

definition firstParagraph :: "string list \<Rightarrow> string" where
  "firstParagraph g = (case g of [] \<Rightarrow> [] | p # _ \<Rightarrow> p)"

text \<open>
  The slide of group \<open>k\<close>: its title by the title rule on the group's own first paragraph
  and the group's own number \<open>k + 1\<close>, its points those of the same group. A group
  yields a slide when it has points.
\<close>

definition groupSlide :: "string list \<Rightarrow> nat \<Rightarrow> nat \<Rightarrow> slide" where
  "groupSlide ps sc k =
     \<lparr>slideTitle = titleRule (firstParagraph (groupOf ps sc k)) (k + 1),
      points = Some (groupPoints (groupOf ps sc k)),
      imageKeyword = None, imageUrl = None\<rparr>"

definition groupHasPoints :: "string list \<Rightarrow> nat \<Rightarrow> nat \<Rightarrow> bool" where
  "groupHasPoints ps sc k = (groupPoints (groupOf ps sc k) \<noteq> [])"

text \<open>
  The slides of \<open>m\<close> consecutive groups of stride \<open>pps\<close>, the first starting at
  paragraph \<open>i\<close> with number \<open>cur\<close> (used to reason about the loop from any state).
\<close>

primrec groupSlidesFrom :: "string list \<Rightarrow> nat \<Rightarrow> nat \<Rightarrow> nat \<Rightarrow> nat \<Rightarrow> slide list" where
  "groupSlidesFrom ps pps i cur 0 = []"
| "groupSlidesFrom ps pps i cur (Suc m) =
     (if groupPoints (slice i (i + pps) ps) \<noteq> []
      then [\<lparr>slideTitle = titleRule (firstParagraph (slice i (i + pps) ps)) cur,
              points = Some (groupPoints (slice i (i + pps) ps)),
              imageKeyword = None, imageUrl = None\<rparr>]
      else [])
     @ groupSlidesFrom ps pps (i + pps) (cur + 1) m"

section \<open>Image resolution (AI configuration)\<close>

text \<open>
  Every URL of the tables has the form
  \<open>https://images.unsplash.com/photo-ID?w=1920&h=1080&fit=crop&q=80\<close>.
\<close>

definition unsplash :: "string \<Rightarrow> string" where
  "unsplash photo =
     ''https://images.unsplash.com/photo-'' @ photo @ ''?w=1920&h=1080&fit=crop&q=80''"

text \<open>
  \<open>imageMapping\<close>: the object literal's entries in declaration order, which is the
  order \<open>Object.entries\<close> enumerates them in.
\<close>

definition imageMapping :: "(string \<times> string) list" where
  "imageMapping =
    [(''network'', unsplash ''1558494949-ef010cbdcc31''),
     (''technology'', unsplash ''1518770660439-4636190af475''),
     (''computer'', unsplash ''1496181133206-80ce9b88a853''),
     (''data'', unsplash ''1551288049-bebda4e38f71''),
     (''server'', unsplash ''1558494949-ef010cbdcc31''),
     (''cable'', unsplash ''1544197150-b99a580bb7a8''),
     (''fiber'', unsplash ''1516044734145-07ca8eef8731''),
     (''wireless'', unsplash ''1562408590-e32931084e23''),
     (''signal'', unsplash ''1606765962248-7ff407b51667''),
     (''security'', unsplash ''1555949963-ff9fe0c870eb''),
     (''cloud'', unsplash ''1544197150-b99a580bb7a8''),
     (''internet'', unsplash ''1451187580459-43490279c0fa''),
     (''communication'', unsplash ''1516321318423-f06f85e504b3''),
     (''digital'', unsplash ''1550751827-4bd374c3f58b''),
     (''hardware'', unsplash ''1591799264318-7e6ef8ddb7ea''),
     (''infrastructure'', unsplash ''1558494949-ef010cbdcc31''),
     (''transmission'', unsplash ''1544197150-b99a580bb7a8''),
     (''physical'', unsplash ''1558494949-ef010cbdcc31''),
     (''layer'', unsplash ''1558494949-ef010cbdcc31''),
     (''protocol'', unsplash ''1550751827-4bd374c3f58b''),
     (''business'', unsplash ''1507003211169-0a1dd7228f2d''),
     (''team'', unsplash ''1522071820081-009f0129c71c''),
     (''challenge'', unsplash ''1454165804606-c3d57bc86b40''),
     (''solution'', unsplash ''1552664730-d307ca884978''),
     (''future'', unsplash ''1451187580459-43490279c0fa''),
     (''innovation'', unsplash ''1485827404703-89b55fcc595e''),
     (''ai'', unsplash ''1677442136019-21780ecad995''),
     (''machine'', unsplash ''1555255707-c07966088b7b''),
     (''education'', unsplash ''1503676260728-1c00da094a0b''),
     (''research'', unsplash ''1532094349884-543bc11b234d'')]"

definition fallbackImages :: "string list" where
  "fallbackImages =
    [unsplash ''1558494949-ef010cbdcc31'',
     unsplash ''1518770660439-4636190af475'',
     unsplash ''1544197150-b99a580bb7a8'',
     unsplash ''1451187580459-43490279c0fa'',
     unsplash ''1550751827-4bd374c3f58b'',
     unsplash ''1551288049-bebda4e38f71'',
     unsplash ''1516321318423-f06f85e504b3'',
     unsplash ''1555949963-ff9fe0c870eb'']"

definition isAlnum :: "char \<Rightarrow> bool" where
  "isAlnum c = (isDigit c \<or> isUpper c \<or> isLower c)"

text \<open>\<open>keyword.replace(/[^a-zA-Z0-9\s]/g, '').trim()\<close>\<close>

definition cleanKeywordOf :: "string \<Rightarrow> string" where
  "cleanKeywordOf keyword = trim (filter (\<lambda>c. isAlnum c \<or> isWhitespace c) keyword)"

text \<open>
  \<open>ToInt32\<close>, and \<open>hash << 5\<close>: the left operand is converted to a signed 32-bit
  integer and the shifted value wraps to 32 bits again.
\<close>

definition toInt32 :: "int \<Rightarrow> int" where
  "toInt32 x = (x + 2147483648) mod 4294967296 - 2147483648"

definition shl5 :: "int \<Rightarrow> int" where
  "shl5 x = toInt32 (toInt32 x * 32)"

text \<open>
  The \<open>reduce\<close> over the characters: \<open>((hash << 5) - hash) + char.charCodeAt(0)\<close>.
  The subtraction and the addition are on JavaScript numbers, exact on integers of this size.
\<close>

definition hashStep :: "int \<Rightarrow> char \<Rightarrow> int" where
  "hashStep hash c = (shl5 hash - hash) + of_char c"

definition keywordHashOf :: "string \<Rightarrow> int" where
  "keywordHashOf cleanKeyword = foldl hashStep 0 (toLowerCase cleanKeyword)"

text \<open>
  The \<open>for ... of Object.entries(imageMapping)\<close> loop: the first entry whose key the
  lower-cased keyword contains.
\<close>

fun firstMatch :: "string \<Rightarrow> (string \<times> string) list \<Rightarrow> (string \<times> string) option" where
  "firstMatch lowerKeyword [] = None"
| "firstMatch lowerKeyword ((key, url) # rest) =
     (if includesStr lowerKeyword key then Some (key, url) else firstMatch lowerKeyword rest)"

text \<open>\<open>Math.abs(keywordHash) % fallbackImages.length\<close>\<close>

definition fallbackIndex :: "string \<Rightarrow> nat" where
  "fallbackIndex cleanKeyword = nat \<bar>keywordHashOf cleanKeyword\<bar> mod length fallbackImages"

definition fetchImageForSlide :: "string \<Rightarrow> string" where
  "fetchImageForSlide keyword =
     (let cleanKeyword = cleanKeywordOf keyword;
          lowerKeyword = toLowerCase cleanKeyword
      in case firstMatch lowerKeyword imageMapping of
           Some (key, url) \<Rightarrow> url
         | None \<Rightarrow> fallbackImages ! fallbackIndex cleanKeyword)"

section \<open>Layout selection (pptxExport, premium edition)\<close>

datatype layout =
    TITLE_FULL_IMAGE
  | SPLIT_LEFT_IMAGE
  | SPLIT_RIGHT_IMAGE
  | FULL_WIDTH_TOP_IMAGE
  | CONCEPT_IMAGE_DOMINANT
  | GRADIENT_BACKGROUND
  | SUMMARY_CLEAN

text \<open>\<open>slideData.imageUrl && slideData.imageUrl.length > 0\<close>\<close>

definition hasImage :: "slide \<Rightarrow> bool" where
  "hasImage slideData = (case imageUrl slideData of None \<Rightarrow> False | Some u \<Rightarrow> length u > 0)"

text \<open>\<open>slideData.points?.length || 0\<close>\<close>

definition pointCount :: "slide \<Rightarrow> nat" where
  "pointCount slideData = (case points slideData of None \<Rightarrow> 0 | Some ps \<Rightarrow> length ps)"

definition determineSlideLayout :: "int \<Rightarrow> int \<Rightarrow> slide \<Rightarrow> layout" where
  "determineSlideLayout index totalSlides slideData =
     (if index = 0 then TITLE_FULL_IMAGE
      else if index = totalSlides - 1 then SUMMARY_CLEAN
      else if hasImage slideData \<and> pointCount slideData \<le> 3 then CONCEPT_IMAGE_DOMINANT
      else if hasImage slideData then
        (if index mod 2 = 0 then SPLIT_RIGHT_IMAGE else SPLIT_LEFT_IMAGE)
      else GRADIENT_BACKGROUND)"

text \<open>
  The layout policy as the specification words it, over the four inputs it names:
  slide index, total slide count, presence of a resolved image, bullet count.
\<close>

definition layoutPolicy :: "int \<Rightarrow> int \<Rightarrow> bool \<Rightarrow> nat \<Rightarrow> layout" where
  "layoutPolicy index totalSlides resolvedImage bullets =
     (if index = 0 then TITLE_FULL_IMAGE
      else if index = totalSlides - 1 then SUMMARY_CLEAN
      else if resolvedImage \<and> bullets \<le> 3 then CONCEPT_IMAGE_DOMINANT
      else if resolvedImage \<and> bullets > 3 \<and> even index then SPLIT_RIGHT_IMAGE
      else if resolvedImage \<and> bullets > 3 \<and> odd index then SPLIT_LEFT_IMAGE
      else GRADIENT_BACKGROUND)"

section \<open>Presentation export (pptxExport, premium edition)\<close>

subsection \<open>Themes\<close>

datatype background = GradientBg string string | SolidBg string

text \<open>A theme object; \<open>overlayOpacity\<close> is in hundredths.\<close>

record theme =
  displayName :: string
  themeBackground :: background
  titleColor :: string
  textColor :: string
  accentColor :: string
  bulletColor :: string
  overlayColor :: string
  overlayOpacity :: nat
  secondaryAccent :: string

definition professionalTheme :: theme where
  "professionalTheme =
     \<lparr>displayName = ''Professional'', themeBackground = GradientBg ''F8FAFC'' ''E2E8F0'',
      titleColor = ''1E293B'', textColor = ''475569'', accentColor = ''3B82F6'',
      bulletColor = ''3B82F6'', overlayColor = ''0F172A'', overlayOpacity = 70,
      secondaryAccent = ''60A5FA''\<rparr>"

definition darkTheme :: theme where
  "darkTheme =
     \<lparr>displayName = ''Dark Mode Pro'', themeBackground = GradientBg ''0F0F23'' ''1A1A3E'',
      titleColor = ''FFFFFF'', textColor = ''CBD5E1'', accentColor = ''06B6D4'',
      bulletColor = ''22D3EE'', overlayColor = ''000000'', overlayOpacity = 60,
      secondaryAccent = ''67E8F9''\<rparr>"

definition modernTheme :: theme where
  "modernTheme =
     \<lparr>displayName = ''Modern Minimal'', themeBackground = GradientBg ''FAFAFA'' ''F5F5F5'',
      titleColor = ''18181B'', textColor = ''52525B'', accentColor = ''7C3AED'',
      bulletColor = ''8B5CF6'', overlayColor = ''1E1B4B'', overlayOpacity = 75,
      secondaryAccent = ''A78BFA''\<rparr>"

definition natureTheme :: theme where
  "natureTheme =
     \<lparr>displayName = ''Nature Fresh'', themeBackground = GradientBg ''ECFDF5'' ''D1FAE5'',
      titleColor = ''064E3B'', textColor = ''047857'', accentColor = ''10B981'',
      bulletColor = ''34D399'', overlayColor = ''022C22'', overlayOpacity = 70,
      secondaryAccent = ''6EE7B7''\<rparr>"

definition corporateTheme :: theme where
  "corporateTheme =
     \<lparr>displayName = ''Corporate Elite'', themeBackground = GradientBg ''F0F9FF'' ''E0F2FE'',
      titleColor = ''0C4A6E'', textColor = ''0369A1'', accentColor = ''0284C7'',
      bulletColor = ''0EA5E9'', overlayColor = ''082F49'', overlayOpacity = 75,
      secondaryAccent = ''38BDF8''\<rparr>"

definition sunsetTheme :: theme where
  "sunsetTheme =
     \<lparr>displayName = ''Sunset Vibes'', themeBackground = GradientBg ''FFF7ED'' ''FFEDD5'',
      titleColor = ''7C2D12'', textColor = ''9A3412'', accentColor = ''EA580C'',
      bulletColor = ''F97316'', overlayColor = ''431407'', overlayOpacity = 70,
      secondaryAccent = ''FB923C''\<rparr>"

definition royalTheme :: theme where
  "royalTheme =
     \<lparr>displayName = ''Royal Purple'', themeBackground = GradientBg ''FAF5FF'' ''F3E8FF'',
      titleColor = ''581C87'', textColor = ''7E22CE'', accentColor = ''9333EA'',
      bulletColor = ''A855F7'', overlayColor = ''3B0764'', overlayOpacity = 75,
      secondaryAccent = ''C084FC''\<rparr>"

text \<open>The registry object \<open>THEMES\<close>: its own properties, in declaration order.\<close>

definition THEMES :: "(string \<times> theme) list" where
  "THEMES =
    [(''professional'', professionalTheme),
     (''dark'', darkTheme),
     (''modern'', modernTheme),
     (''nature'', natureTheme),
     (''corporate'', corporateTheme),
     (''sunset'', sunsetTheme),
     (''royal'', royalTheme)]"

text \<open>
  \<open>THEMES\<close> is an object literal, so a property read that finds no own property continues
  along the prototype chain to \<open>Object.prototype\<close>. These are the property names found
  there; each holds a function or an object, hence a truthy value that is not a theme.
\<close>

definition objectPrototypeKeys :: "string list" where
  "objectPrototypeKeys =
    [''constructor'', ''__defineGetter__'', ''__defineSetter__'', ''hasOwnProperty'',
     ''__lookupGetter__'', ''__lookupSetter__'', ''isPrototypeOf'', ''propertyIsEnumerable'',
     ''toString'', ''valueOf'', ''__proto__'', ''toLocaleString'']"

datatype themeValue = ThemeObject theme | InheritedMember

text \<open>\<open>const theme = THEMES[themeName] || THEMES.professional\<close>\<close>

definition resolveTheme :: "string \<Rightarrow> themeValue" where
  "resolveTheme themeName =
     (case map_of THEMES themeName of
        Some t \<Rightarrow> ThemeObject t
      | None \<Rightarrow>
          if themeName \<in> set objectPrototypeKeys then InheritedMember
          else ThemeObject professionalTheme)"

subsection \<open>Slides under construction\<close>

text \<open>
  Lengths are in hundredths of an inch (the canvas is 13.33 by 7.5 inches) or in percent.
  An element records what is drawn, where, and its colour and size options; the static
  font-face, alignment, weight and shadow options are not recorded.
\<close>

datatype dim = Inch int | Percent nat

type_synonym box = "dim \<times> dim \<times> dim \<times> dim"

definition box :: "int \<Rightarrow> int \<Rightarrow> int \<Rightarrow> int \<Rightarrow> box" where
  "box x y w h = (Inch x, Inch y, Inch w, Inch h)"

text \<open>
  \<open>ImageEl data box\<close>; \<open>ShapeEl shape box fill transparency\<close>;
  \<open>TextEl text box fontSize color\<close>; \<open>BulletsEl bulletType items box fontSize color\<close>;
  \<open>PrefixedEl prefix items box fontSize color\<close>: one text run per item, each the
  prefix followed by the item, the prefix given by its UTF-16 code units.
\<close>

datatype element =
    ImageEl string box
  | ShapeEl string box string "nat option"
  | TextEl string box nat string
  | BulletsEl string "string list" box nat string
  | PrefixedEl "nat list" "string list" box nat string

text \<open>A PptxGenJS slide: its background colour and the elements added so far.\<close>

record canvas =
  background :: "string option"
  elements :: "element list"

definition newSlide :: canvas where
  "newSlide = \<lparr>background = None, elements = []\<rparr>"

definition addElement :: "element \<Rightarrow> canvas \<Rightarrow> canvas" where
  "addElement e slide = slide\<lparr>elements := elements slide @ [e]\<rparr>"

fun addElements :: "element list \<Rightarrow> canvas \<Rightarrow> canvas" where
  "addElements [] slide = slide"
| "addElements (e # es) slide = addElements es (addElement e slide)"

fun isImageEl :: "element \<Rightarrow> bool" where
  "isImageEl (ImageEl d b) = True"
| "isImageEl e = False"

subsection \<open>Image download\<close>

text \<open>
  What \<open>fetch\<close> does for a URL once it settles: it throws (network error, timeout),
  answers with a status that is not ok, or answers with a content-type header and a body
  (here already in base64). The renderer is parameterised by this behaviour.
\<close>

datatype fetchOutcome = FetchThrows | NotOk | Body "string option" string

type_synonym fetcher = "string \<Rightarrow> fetchOutcome"

datatype imageData = ImageData (imgData: string) (imgType: string)

definition downloadImageAsBase64 :: "fetcher \<Rightarrow> string \<Rightarrow> imageData option" where
  "downloadImageAsBase64 fetch url =
     (case fetch url of
        FetchThrows \<Rightarrow> None
      | NotOk \<Rightarrow> None
      | Body header base64 \<Rightarrow>
          (let contentType = (case header of None \<Rightarrow> ''image/jpeg''
                              | Some h \<Rightarrow> if h = [] then ''image/jpeg'' else h);
               imageType = (if includesStr contentType ''png'' then ''png'' else ''jpeg'')
           in Some (ImageData base64 imageType)))"

text \<open>\<open>`image/${imageData.type};base64,${imageData.data}`\<close>\<close>

definition imageSrc :: "imageData \<Rightarrow> string" where
  "imageSrc img = ''image/'' @ imgType img @ '';base64,'' @ imgData img"

subsection \<open>Layout renderers\<close>

definition addGradientBackground :: "canvas \<Rightarrow> theme \<Rightarrow> canvas" where
  "addGradientBackground slide theme =
     (case themeBackground theme of
        GradientBg c0 c1 \<Rightarrow>
          addElement (ShapeEl ''rect'' (Inch 0, Inch 0, Percent 100, Percent 100) c1 (Some 50))
            (slide\<lparr>background := Some c0\<rparr>)
      | SolidBg c \<Rightarrow> slide\<lparr>background := Some c\<rparr>)"

definition addAccentShapes :: "canvas \<Rightarrow> theme \<Rightarrow> string \<Rightarrow> canvas" where
  "addAccentShapes slide theme position =
     (if position = ''top'' then
        addElement (ShapeEl ''rect'' (Inch 0, Inch 0, Percent 100, Inch 6) (accentColor theme) None) slide
      else if position = ''bottom'' then
        addElement (ShapeEl ''rect'' (Inch 0, Inch 720, Percent 100, Inch 30)
          (accentColor theme) (Some 80)) slide
      else if position = ''corner'' then
        addElement (ShapeEl ''rect'' (box 0 0 15 200) (accentColor theme) None) slide
      else if position = ''circle'' then
        addElement (ShapeEl ''ellipse'' (box 1150 (-100) 300 300) (secondaryAccent theme) (Some 85)) slide
      else slide)"

text \<open>\<open>theme.background.colors ? theme.background.colors[0] : 'FFFFFF'\<close>\<close>

definition baseColor :: "theme \<Rightarrow> string" where
  "baseColor theme = (case themeBackground theme of GradientBg c0 c1 \<Rightarrow> c0 | SolidBg c \<Rightarrow> ''FFFFFF'')"

text \<open>\<open>slideData.slideTitle || `Slide ${index + 1}`\<close>\<close>

definition titleOr :: "slide \<Rightarrow> string \<Rightarrow> string" where
  "titleOr slideData fallback = (if slideTitle slideData = [] then fallback else slideTitle slideData)"

definition slideLabel :: "nat \<Rightarrow> string" where
  "slideLabel index = ''Slide '' @ showNat (index + 1)"

text \<open>The bullet block, added when \<open>slideData.points\<close> is an array.\<close>

definition addBullets :: "string \<Rightarrow> slide \<Rightarrow> box \<Rightarrow> nat \<Rightarrow> string \<Rightarrow> canvas \<Rightarrow> canvas" where
  "addBullets bulletType slideData b fontSize color slide =
     (case points slideData of
        None \<Rightarrow> slide
      | Some ps \<Rightarrow> addElement (BulletsEl bulletType ps b fontSize color) slide)"

definition createSplitRightImageSlide ::
    "canvas \<Rightarrow> slide \<Rightarrow> imageData option \<Rightarrow> theme \<Rightarrow> nat \<Rightarrow> canvas" where
  "createSplitRightImageSlide slide slideData imageData theme index =
     (let s1 = slide\<lparr>background := Some (baseColor theme)\<rparr>;
          s2 = addElement (ShapeEl ''rect'' (box 0 0 10 750) (accentColor theme) None) s1;
          s3 = addElement (TextEl (titleOr slideData (slideLabel index)) (box 50 50 550 100) 32
                 (titleColor theme)) s2;
          s4 = addElement (ShapeEl ''rect'' (box 50 150 250 5) (accentColor theme) None) s3;
          s5 = addBullets ''bullet'' slideData (box 50 180 550 520) 16 (textColor theme) s4
      in case imageData of
           None \<Rightarrow> s5
         | Some img \<Rightarrow>
             addElements
               [ImageEl (imageSrc img) (box 633 0 700 750),
                ShapeEl ''rect'' (box 633 0 150 750) (baseColor theme) (Some 70)] s5)"

definition createSplitLeftImageSlide ::
    "canvas \<Rightarrow> slide \<Rightarrow> imageData option \<Rightarrow> theme \<Rightarrow> nat \<Rightarrow> canvas" where
  "createSplitLeftImageSlide slide slideData imageData theme index =
     (let s1 = slide\<lparr>background := Some (baseColor theme)\<rparr>;
          s2 = (case imageData of
                  None \<Rightarrow> s1
                | Some img \<Rightarrow>
                    addElements
                      [ImageEl (imageSrc img) (box 0 0 700 750),
                       ShapeEl ''rect'' (box 550 0 150 750) (baseColor theme) (Some 70)] s1);
          s3 = addElement (ShapeEl ''rect'' (box 1323 0 10 750) (accentColor theme) None) s2;
          s4 = addElement (TextEl (titleOr slideData (slideLabel index)) (box 730 50 550 100) 32
                 (titleColor theme)) s3;
          s5 = addElement (ShapeEl ''rect'' (box 730 150 250 5) (accentColor theme) None) s4
      in addBullets ''bullet'' slideData (box 730 180 550 520) 16 (textColor theme) s5)"

text \<open>
  The prefix of the concept layout's points in the template literal of the source: the
  code units U+00E2, U+20AC, U+00A2 and a space. The second lies outside the 8-bit range
  of \<open>string\<close>, so the prefix is kept as a list of code units.
\<close>

definition bulletPrefix :: "nat list" where
  "bulletPrefix = [0xE2, 0x20AC, 0xA2, 0x20]"

definition createConceptDominantSlide ::
    "canvas \<Rightarrow> slide \<Rightarrow> imageData option \<Rightarrow> theme \<Rightarrow> nat \<Rightarrow> canvas" where
  "createConceptDominantSlide slide slideData imageData theme index =
     (let s1 = (case imageData of
                  Some img \<Rightarrow>
                    addElements
                      [ImageEl (imageSrc img) (box 0 0 1333 750),
                       ShapeEl ''rect'' (box 0 450 1333 300) (overlayColor theme) (Some 25),
                       ShapeEl ''rect'' (box 0 0 1333 750) ''000000'' (Some 70)] slide
                | None \<Rightarrow> addGradientBackground slide theme);
          s2 = addElement (TextEl (titleOr slideData (slideLabel index)) (box 80 480 1173 120) 40
                 (if imageData \<noteq> None then ''FFFFFF'' else titleColor theme)) s1;
          s3 = (case points slideData of
                  None \<Rightarrow> s2
                | Some ps \<Rightarrow>
                    if length ps > 0 then
                      addElement (PrefixedEl bulletPrefix (take 3 ps)
                        (box 80 600 1173 130) 16
                        (if imageData \<noteq> None then ''E2E8F0'' else textColor theme)) s2
                    else s2)
      in addElement (ShapeEl ''rect'' (box 80 460 300 6) (accentColor theme) None) s3)"

definition createSummarySlide ::
    "canvas \<Rightarrow> slide \<Rightarrow> imageData option \<Rightarrow> theme \<Rightarrow> nat \<Rightarrow> nat \<Rightarrow> canvas" where
  "createSummarySlide slide slideData imageData theme index totalSlides =
     (let s1 = addGradientBackground slide theme;
          s2 = addElements
                 [ShapeEl ''ellipse'' (box 1000 (-150) 500 500) (accentColor theme) (Some 90),
                  ShapeEl ''rect'' (box 0 0 12 750) (accentColor theme) None,
                  TextEl (titleOr slideData ''Summary'') (box 60 40 1200 120) 36 (titleColor theme),
                  ShapeEl ''rect'' (box 60 150 300 6) (accentColor theme) None] s1;
          s3 = addBullets ''number'' slideData (box 60 190 1200 500) 18 (textColor theme) s2
      in addElement (ShapeEl ''rect'' (box 0 735 1333 15) (accentColor theme) None) s3)"

definition createGradientBackgroundSlide :: "canvas \<Rightarrow> slide \<Rightarrow> theme \<Rightarrow> nat \<Rightarrow> canvas" where
  "createGradientBackgroundSlide slide slideData theme index =
     (let s1 = addGradientBackground slide theme;
          s2 = addElements
                 [ShapeEl ''rect'' (box 0 0 1333 8) (accentColor theme) None,
                  ShapeEl ''ellipse'' (box 1050 (-100) 400 400) (secondaryAccent theme) (Some 88),
                  TextEl (titleOr slideData (slideLabel index)) (box 50 50 1233 100) 34
                    (titleColor theme),
                  ShapeEl ''rect'' (box 50 150 250 5) (accentColor theme) None] s1;
          s3 = addBullets ''bullet'' slideData (box 50 180 1233 520) 18 (textColor theme) s2
      in addElement (ShapeEl ''rect'' (box 0 735 1333 15) (accentColor theme) None) s3)"

subsection \<open>The renderer\<close>

text \<open>The \<open>switch (layout)\<close> of the content loop; the default case is the gradient renderer.\<close>

definition applyLayout ::
    "layout \<Rightarrow> canvas \<Rightarrow> slide \<Rightarrow> imageData option \<Rightarrow> theme \<Rightarrow> nat \<Rightarrow> nat \<Rightarrow> canvas" where
  "applyLayout l slide slideData imageData theme index totalSlides =
     (case l of
        SPLIT_RIGHT_IMAGE \<Rightarrow> createSplitRightImageSlide slide slideData imageData theme index
      | SPLIT_LEFT_IMAGE \<Rightarrow> createSplitLeftImageSlide slide slideData imageData theme index
      | CONCEPT_IMAGE_DOMINANT \<Rightarrow> createConceptDominantSlide slide slideData imageData theme index
      | SUMMARY_CLEAN \<Rightarrow> createSummarySlide slide slideData imageData theme index totalSlides
      | _ \<Rightarrow> createGradientBackgroundSlide slide slideData theme index)"

text \<open>The slide number, bottom right: \<open>`${index + 2}`\<close>.\<close>

definition addSlideNumber :: "theme \<Rightarrow> nat \<Rightarrow> canvas \<Rightarrow> canvas" where
  "addSlideNumber theme index slide =
     addElement (TextEl (showNat (index + 2)) (box 1250 705 60 35) 11 (textColor theme)) slide"

text \<open>One iteration of the content loop.\<close>

definition contentSlide :: "fetcher \<Rightarrow> theme \<Rightarrow> nat \<Rightarrow> nat \<Rightarrow> slide \<Rightarrow> canvas" where
  "contentSlide fetch theme totalSlides index slideData =
     (let l = determineSlideLayout (int index) (int totalSlides) slideData;
          imageData = (case imageUrl slideData of
                     None \<Rightarrow> None
                   | Some u \<Rightarrow> if length u > 0 then downloadImageAsBase64 fetch u else None)
      in addSlideNumber theme index
           (applyLayout l newSlide slideData imageData theme index totalSlides))"

text \<open>The content loop, from \<open>index\<close> on.\<close>

fun contentSlides :: "fetcher \<Rightarrow> theme \<Rightarrow> nat \<Rightarrow> nat \<Rightarrow> slide list \<Rightarrow> canvas list" where
  "contentSlides fetch theme totalSlides index [] = []"
| "contentSlides fetch theme totalSlides index (slideData # rest) =
     contentSlide fetch theme totalSlides index slideData
       # contentSlides fetch theme totalSlides (index + 1) rest"

text \<open>\<open>presentationData.title || 'Untitled Presentation'\<close>\<close>

definition deckTitle :: "presentation \<Rightarrow> string" where
  "deckTitle presentationData =
     (if title presentationData = [] then ''Untitled Presentation'' else title presentationData)"

text \<open>The title slide; \<open>today\<close> is the formatted current date.\<close>

definition titleSlide :: "fetcher \<Rightarrow> string \<Rightarrow> theme \<Rightarrow> presentation \<Rightarrow> canvas" where
  "titleSlide fetch today theme presentationData =
     (let firstSlideImage = (case slides presentationData of
                               [] \<Rightarrow> None
                             | s # _ \<Rightarrow> imageUrl s);
          titleImageData = (case firstSlideImage of
                              None \<Rightarrow> None
                            | Some u \<Rightarrow> if u = [] then None else downloadImageAsBase64 fetch u);
          s1 = (case titleImageData of
                  Some img \<Rightarrow>
                    addElements
                      [ImageEl (imageSrc img) (box 0 0 1333 750),
                       ShapeEl ''rect'' (box 0 0 1333 750) (overlayColor theme) (Some 35),
                       ShapeEl ''rect'' (box 0 450 1333 300) ''000000'' (Some 60)] newSlide
                | None \<Rightarrow> addAccentShapes (addGradientBackground newSlide theme) theme ''circle'')
      in addElements
           [ShapeEl ''rect'' (box 467 280 400 6) (accentColor theme) None,
            TextEl (deckTitle presentationData) (box 80 300 1173 150) 48
              (if titleImageData \<noteq> None then ''FFFFFF'' else titleColor theme),
            TextEl today (box 80 480 1173 60) 18
              (if titleImageData \<noteq> None then ''E2E8F0'' else textColor theme),
            ShapeEl ''rect'' (box 0 735 1333 15) (accentColor theme) None] s1)"

definition thankYouSlide :: "theme \<Rightarrow> canvas" where
  "thankYouSlide theme =
     addElements
       [ShapeEl ''ellipse'' (box (-200) (-200) 600 600) (accentColor theme) (Some 90),
        ShapeEl ''ellipse'' (box 1000 400 500 500) (secondaryAccent theme) (Some 85),
        TextEl ''Thank You!'' (box 80 250 1173 150) 56 (titleColor theme),
        ShapeEl ''rect'' (box 517 420 300 8) (accentColor theme) None,
        TextEl ''Questions & Discussion'' (box 80 450 1173 80) 24 (textColor theme),
        ShapeEl ''rect'' (box 0 735 1333 15) (accentColor theme) None]
       (addGradientBackground newSlide theme)"

text \<open>The document handed to \<open>pptx.write\<close>: its properties and its slides in order.\<close>

record pptx =
  pptxAuthor :: string
  pptxTitle :: string
  pptxSlides :: "canvas list"

datatype renderError = TypeError

text \<open>
  \<open>generatePowerPoint\<close>. With a theme object, no statement of the function throws. With an
  inherited member in place of the theme, \<open>theme.background\<close> is \<open>undefined\<close> and the
  read of \<open>theme.background.type\<close> in \<open>addGradientBackground\<close>, reached for the closing
  slide at the latest, throws a \<open>TypeError\<close>: the function returns no document.
\<close>

definition generatePowerPoint ::
    "fetcher \<Rightarrow> string \<Rightarrow> presentation \<Rightarrow> string \<Rightarrow> renderError + pptx" where
  "generatePowerPoint fetch today presentationData themeName =
     (case resolveTheme themeName of
        InheritedMember \<Rightarrow> Inl TypeError
      | ThemeObject theme \<Rightarrow>
          (let totalSlides = length (slides presentationData)
           in Inr \<lparr>pptxAuthor = ''AI Presentation Maker - Premium'',
                   pptxTitle = deckTitle presentationData,
                   pptxSlides =
                     titleSlide fetch today theme presentationData
                       # contentSlides fetch theme totalSlides 0 (slides presentationData)
                       @ [thankYouSlide theme]\<rparr>))"

section \<open>Generate controller\<close>

subsection \<open>The requested slide count\<close>

text \<open>The value of a character as a digit, for radix 10 or 16.\<close>

definition digitValue :: "char \<Rightarrow> nat" where
  "digitValue c =
     (let n = (of_char c :: nat)
      in if isDigit c then n - 48 else if isUpper c then n - 55 else n - 87)"

definition isRadixDigit :: "nat \<Rightarrow> char \<Rightarrow> bool" where
  "isRadixDigit radix c =
     (isDigit c \<or> (radix = 16 \<and> (let n = (of_char c :: nat)
                                   in (65 \<le> n \<and> n \<le> 70) \<or> (97 \<le> n \<and> n \<le> 102))))"

text \<open>
  \<open>parseInt(string)\<close> without a radix, on the text \<open>ToString\<close> gives for the argument:
  leading whitespace is skipped, a sign is read, a \<open>0x\<close> prefix selects radix 16, the
  longest prefix of digits is the value, and no digit gives \<open>NaN\<close> (\<open>None\<close>).
\<close>

definition parseInt :: "string \<Rightarrow> int option" where
  "parseInt inputString =
     (let s = dropWhile isWhitespace inputString;
          negative = startsWith s ''-'';
          s1 = (if startsWith s ''-'' \<or> startsWith s ''+'' then drop 1 s else s);
          hex = (startsWith s1 ''0x'' \<or> startsWith s1 ''0X'');
          radix = (if hex then 16 else 10);
          s2 = (if hex then drop 2 s1 else s1);
          z = takeWhile (isRadixDigit radix) s2;
          mathInt = foldl (\<lambda>acc c. acc * radix + digitValue c) 0 z
      in if z = [] then None
         else Some (if negative then - int mathInt else int mathInt))"

text \<open>
  \<open>Math.min(Math.max(parsed || 5, 1), 20)\<close>: \<open>NaN\<close> and \<open>0\<close> are falsy, so both are
  replaced by 5 before the clamp.
\<close>

definition clampSlideCount :: "int option \<Rightarrow> int" where
  "clampSlideCount parsed =
     min (max (case parsed of None \<Rightarrow> 5 | Some k \<Rightarrow> if k = 0 then 5 else k) 1) 20"

text \<open>
  The \<open>slideCount\<close> field of a request body: absent (\<open>None\<close>, the destructuring default 5
  applies), or present, given by the text \<open>ToString\<close> yields for it (for the number 7 and
  for the string "7" alike the text \<open>7\<close>).
\<close>

definition requestedSlides :: "string option \<Rightarrow> int" where
  "requestedSlides slideCount =
     clampSlideCount (case slideCount of None \<Rightarrow> Some 5 | Some v \<Rightarrow> parseInt v)"

subsection \<open>Endpoints\<close>

text \<open>
  \<open>generatePresentation\<close> calls the generative services over the network; the endpoints
  are parameterised by its behaviour: it throws an error with a message (\<open>Inl\<close>) or returns
  a presentation (\<open>Inr\<close>).
\<close>

type_synonym generator = "string \<Rightarrow> int \<Rightarrow> string + presentation"

text \<open>The response: the JSON body of status 200, or the \<open>AppError\<close> passed to \<open>next\<close>.\<close>

datatype response = Json presentation | AppError nat string

text \<open>
  The endpoints below are those of a request without an authenticated user; storing the
  deck for an authenticated user happens after the deck is chosen and is not modelled.
\<close>

definition generateFromText :: "generator \<Rightarrow> string \<Rightarrow> string option \<Rightarrow> response" where
  "generateFromText generatePresentation text slideCount =
     (if text = [] \<or> length (trim text) = 0 then
        AppError 400 ''Please provide text content''
      else if length text < 50 then
        AppError 400 ''Text content is too short. Please provide at least 50 characters.''
      else if length text > 50000 then
        AppError 400 ''Text content is too long. Maximum 50,000 characters allowed.''
      else
        (let n = requestedSlides slideCount
         in case generatePresentation text n of
              Inl message \<Rightarrow> AppError 500 (''Failed to generate presentation: '' @ message)
            | Inr presentation \<Rightarrow>
                Json \<lparr>title = title presentation, slides = slides presentation\<rparr>))"

text \<open>
  What \<open>extractTextFromBuffer\<close> does with the uploaded file: it throws with a message, or
  returns the text and the embedded title (empty when there is none).
\<close>

datatype extraction = ExtractionFailed string | Extracted string string

definition generateFromPDF ::
    "generator \<Rightarrow> extraction option \<Rightarrow> string option \<Rightarrow> bool \<Rightarrow> response" where
  "generateFromPDF generatePresentation file slideCount enhanceWithAI =
     (case file of
        None \<Rightarrow> AppError 400 ''Please upload a PDF file''
      | Some (ExtractionFailed message) \<Rightarrow>
          AppError 400 (''Failed to extract text from PDF: '' @ message)
      | Some (Extracted text infoTitle) \<Rightarrow>
          (let n = requestedSlides slideCount;
               cleanedText = cleanExtractedText text
           in if length cleanedText < 50 then
                AppError 400 ''PDF contains insufficient text content''
              else
                (let presentation =
                       (if enhanceWithAI then
                          (case generatePresentation cleanedText n of
                             Inr p \<Rightarrow> p
                           | Inl message \<Rightarrow> textToBasicSlides cleanedText (nat n))
                        else
                          (let p = textToBasicSlides cleanedText (nat n)
                           in if infoTitle = [] then p else p\<lparr>title := infoTitle\<rparr>))
                 in Json \<lparr>title = title presentation, slides = slides presentation\<rparr>)))"

text \<open>The prompt built from a topic.\<close>

definition topicPrompt :: "string \<Rightarrow> string \<Rightarrow> string \<Rightarrow> int \<Rightarrow> string" where
  "topicPrompt topic audience style n =
     ''Create a comprehensive presentation about: '' @ [CHR 0x22] @ topic @ [CHR 0x22, NL, NL] @
     ''Target Audience: '' @ audience @ [NL] @
     ''Style: '' @ style @ [NL] @
     ''Number of Slides: '' @ (if n < 0 then ''-'' else []) @ showNat (nat \<bar>n\<bar>) @ [NL, NL] @
     ''Please create an engaging and informative presentation that covers the key aspects of this topic.'' @ [NL] @
     ''Include an introduction slide, main content slides, and a conclusion/summary slide.'' @ [NL] @
     ''Each slide should have 3-5 clear, concise bullet points.''"

definition generateFromTopic ::
    "generator \<Rightarrow> string \<Rightarrow> string option \<Rightarrow> string \<Rightarrow> string \<Rightarrow> response" where
  "generateFromTopic generatePresentation topic slideCount audience style =
     (if topic = [] \<or> length (trim topic) = 0 then
        AppError 400 ''Please provide a topic''
      else if length topic < 3 then
        AppError 400 ''Topic is too short. Please provide a more descriptive topic.''
      else if length topic > 500 then
        AppError 400 ''Topic is too long. Maximum 500 characters allowed.''
      else
        (let n = requestedSlides slideCount
         in case generatePresentation (topicPrompt topic audience style n) n of
              Inl message \<Rightarrow> AppError 500 (''Failed to generate presentation: '' @ message)
            | Inr presentation \<Rightarrow>
                Json \<lparr>title = title presentation, slides = slides presentation\<rparr>))"

section \<open>Example inputs\<close>

definition exampleSlide :: slide where
  "exampleSlide = \<lparr>slideTitle = ''Intro'', points = Some [''Clean energy''],
                    imageKeyword = None, imageUrl = None\<rparr>"

definition shortParagraphs :: string where
  "shortParagraphs = ''Solar power.'' @ [NL, NL] @ ''Wind power.'' @ [NL, NL] @ ''Hydro power.''
      @ [NL, NL] @ ''Tidal power.'' @ [NL, NL] @ ''Geothermal.''"


definition fiberSlide :: slide where
  "fiberSlide = \<lparr>slideTitle = ''Fiber links'',
                  points = Some [''Glass carries light'', ''Loss is low'', ''Bandwidth is high'',
                                 ''Cables cross oceans''],
                  imageKeyword = Some ''fiber optic cables'',
                  imageUrl = Some ''https://example.org/fiber.png''\<rparr>"

section \<open>Verified properties\<close>

subsection \<open>Text cleaning and the text fallback builder\<close>

lemma includesStr_append: "includesStr ys sub \<Longrightarrow> includesStr (xs @ ys) sub"
  by (induction xs) auto

lemma run3_startsWith:
  "3 \<le> length (takeWhile (\<lambda>x. x = d) s) \<Longrightarrow> startsWith s [d, d, d]"
proof (cases s)
  case Nil then show "3 \<le> length (takeWhile (\<lambda>x. x = d) s) \<Longrightarrow> ?thesis" by simp
next
  case (Cons a s1)
  assume h: "3 \<le> length (takeWhile (\<lambda>x. x = d) s)"
  show ?thesis
  proof (cases s1)
    case Nil with Cons h show ?thesis by (simp split: if_splits)
  next
    case (Cons b s2)
    note s1 = this
    show ?thesis
    proof (cases s2)
      case Nil with s1 \<open>s = a # s1\<close> h show ?thesis by (simp split: if_splits)
    next
      case (Cons e s3)
      with s1 \<open>s = a # s1\<close> h show ?thesis by (simp split: if_splits)
    qed
  qed
qed

lemma collapseNewlines_id: "\<not> includesStr s [NL, NL, NL] \<Longrightarrow> collapseNewlines s = s"
proof (induction s rule: collapseNewlines.induct)
  case 1
  show ?case by simp
next
  case (2 c cs)
  show ?case
  proof (cases "c = NL")
    case False
    with 2 show ?thesis by simp
  next
    case True
    let ?run = "takeWhile (\<lambda>x. x = NL) (c # cs)"
    let ?rest = "dropWhile (\<lambda>x. x = NL) cs"
    have split: "c # cs = ?run @ ?rest"
      using True by simp
    have short: "\<not> 3 \<le> length ?run"
    proof
      assume "3 \<le> length ?run"
      then have "startsWith (c # cs) [NL, NL, NL]"
        by (rule run3_startsWith)
      then have "includesStr (c # cs) [NL, NL, NL]"
        by (simp only: includesStr.simps simp_thms)
      with "2.prems" show False by simp
    qed
    have "\<not> includesStr ?rest [NL, NL, NL]"
      using "2.prems" includesStr_append [of ?rest "[NL, NL, NL]" ?run] split by metis
    then have "collapseNewlines ?rest = ?rest"
      using "2.IH"(1) [OF True refl refl] by simp
    then have "collapseNewlines (c # cs) = ?run @ ?rest"
      using True short by (simp add: Let_def)
    also have "\<dots> = c # cs"
      using split by (rule sym)
    finally show ?thesis .
  qed
qed

lemma collapseSpaces_id:
  "TAB \<notin> set s \<Longrightarrow> \<not> includesStr s ''  '' \<Longrightarrow> collapseSpaces s = s"
proof (induction s rule: collapseSpaces.induct)
  case 1
  show ?case by simp
next
  case (2 c cs)
  show ?case
  proof (cases "isSpaceTab c")
    case False
    with 2 show ?thesis by simp
  next
    case True
    with "2.prems" have c: "c = CHR '' ''" by (auto simp: isSpaceTab_def)
    have "dropWhile isSpaceTab cs = cs"
      using "2.prems" c by (cases cs) (auto simp: isSpaceTab_def)
    with 2 True c show ?thesis by simp
  qed
qed

lemma joinHyphenated_id: "\<not> hasHyphenBreak s \<Longrightarrow> joinHyphenated s = s"
  by (induction s rule: joinHyphenated.induct) auto

lemma replaceFormFeed_id: "FF \<notin> set s \<Longrightarrow> replaceFormFeed s = s"
  unfolding replaceFormFeed_def by (induction s) auto

lemma splitOn_nonempty: "splitOn P s \<noteq> []"
  by (induction s) (auto simp: Let_def)

lemma joinWith_Cons: "ls \<noteq> [] \<Longrightarrow> joinWith sep (l # ls) = l @ sep @ joinWith sep ls"
  by (cases ls) auto

lemma joinWith_splitOn: "joinWith [d] (splitOn (\<lambda>c. c = d) s) = s"
proof (induction s)
  case Nil
  show ?case by simp
next
  case (Cons c s)
  obtain l ls where r: "splitOn (\<lambda>c. c = d) s = l # ls"
    using splitOn_nonempty by (cases "splitOn (\<lambda>c. c = d) s") auto
  show ?case
  proof (cases "c = d")
    case True
    with Cons r show ?thesis by (simp add: Let_def)
  next
    case False
    with Cons r show ?thesis by (cases ls) (auto simp: Let_def)
  qed
qed

lemma trim_id: "noOuterWhitespace s \<Longrightarrow> trim s = s"
proof (cases s)
  case Nil
  then show ?thesis by (simp add: trim_def)
next
  case (Cons c cs)
  assume "noOuterWhitespace s"
  with Cons have a: "\<not> isWhitespace c" and b: "\<not> isWhitespace (last s)"
    by (auto simp: noOuterWhitespace_def)
  from a Cons have 1: "dropWhile isWhitespace s = s" by simp
  from Cons have "rev s \<noteq> []" by simp
  then obtain e es where res: "rev s = e # es" by (cases "rev s") auto
  then have "e = last s" using Cons by (metis hd_rev list.sel(1))
  with b have "\<not> isWhitespace e" by simp
  then have "dropWhile isWhitespace (e # es) = e # es" by simp
  with res have "dropWhile isWhitespace (rev s) = rev s" by simp
  with 1 show ?thesis by (simp add: trim_def)
qed


text \<open>
  C9 (amended). Cleaning is the identity on text in clean form: text without a run of three
  newlines, a tab, a run of two spaces, a hyphen and newline between two word characters or a
  form feed, in which no line and not the text itself begins or ends with whitespace, is
  returned unchanged.
\<close>

theorem cleanExtractedText_fixpoint:
  assumes "cleanForm s"
  shows "cleanExtractedText s = s"
proof (cases "s = []")
  case True
  then show ?thesis by (simp add: cleanExtractedText_def)
next
  case False
  from assms have 1: "collapseNewlines s = s"
    by (simp add: cleanForm_def collapseNewlines_id)
  from assms have 2: "collapseSpaces s = s"
    by (simp add: cleanForm_def collapseSpaces_id)
  from assms have 3: "joinHyphenated s = s"
    by (simp add: cleanForm_def joinHyphenated_id)
  from assms have 4: "replaceFormFeed s = s"
    by (simp add: cleanForm_def replaceFormFeed_id)
  from assms have "\<forall>l \<in> set (splitOn (\<lambda>c. c = NL) s). trim l = l"
    by (simp add: cleanForm_def list_all_iff trim_id)
  then have 5: "map trim (splitOn (\<lambda>c. c = NL) s) = splitOn (\<lambda>c. c = NL) s"
    by (simp add: map_idI)
  from assms have 6: "trim s = s"
    by (simp add: cleanForm_def trim_id)
  show ?thesis
    using False by (simp add: cleanExtractedText_def 1 2 3 4 5 6 joinWith_splitOn)
qed

theorem cleanExtractedText_fixpoint_witness:
  "cleanForm (''Solar power.'' @ [NL, NL] @ ''Wind is cheap.'') \<and>
   cleanExtractedText (''Solar power.'' @ [NL, NL] @ ''Wind is cheap.'')
     = ''Solar power.'' @ [NL, NL] @ ''Wind is cheap.''"
proof -
  have h: "cleanForm (''Solar power.'' @ [NL, NL] @ ''Wind is cheap.'')"
    by code_simp
  from h cleanExtractedText_fixpoint [OF h] show ?thesis by simp
qed

text \<open>
  C9 as stated fails: a text with a single leading space has no repeated newline and no
  repeated space, and cleaning changes it.
\<close>

theorem cleanExtractedText_not_identity:
  "noRepeats '' a'' \<and> cleanExtractedText '' a'' \<noteq> '' a''"
  by code_simp

lemma buildSlides_length:
  "length acc \<le> sc \<Longrightarrow> length (buildSlides ps sc i cur acc) \<le> sc"
proof (induction ps sc i cur acc rule: buildSlides.induct)
  case (1 ps sc i cur acc)
  show ?case
  proof (cases "i < length ps \<and> length acc < sc")
    case False
    with "1.prems" show ?thesis by (subst buildSlides.simps) (auto simp: Let_def)
  next
    case True
    let ?pps = "ceilDiv (length ps) sc"
    let ?paras = "slice i (i + ?pps) ps"
    let ?acc' = "if length (groupPoints ?paras) > 0
                 then acc @ [\<lparr>slideTitle = groupTitle ?paras cur, points = Some (groupPoints ?paras),
                               imageKeyword = None, imageUrl = None\<rparr>]
                 else acc"
    have "length ?acc' \<le> sc" using True by auto
    then have "length (buildSlides ps sc (i + ?pps) (cur + 1) ?acc') \<le> sc"
      using "1.IH" [OF refl True refl refl refl] by simp
    then show ?thesis
      using True by (subst buildSlides.simps) (simp add: Let_def)
  qed
qed

text \<open>
  C4. For every text and every slide count of at least 1 (so for every cleaned text of 50 to
  50,000 characters and every count from 1 to 20), the text fallback builder returns between 1
  and \<open>slideCount\<close> slides; when segmentation pushes no slide, the deck is exactly one
  slide titled ``Content Overview'' whose point is the first 200 characters of the cleaned
  text followed by an ellipsis.
\<close>

theorem textToBasicSlides_count:
  assumes "1 \<le> slideCount"
  shows "1 \<le> length (slides (textToBasicSlides text slideCount)) \<and>
         length (slides (textToBasicSlides text slideCount)) \<le> slideCount \<and>
         (length (buildSlides (paragraphsOf (cleanExtractedText text)) slideCount 0 1 []) = 0 \<longrightarrow>
            slides (textToBasicSlides text slideCount) =
              [\<lparr>slideTitle = ''Content Overview'',
                points = Some [take 200 (cleanExtractedText text) @ ''...''],
                imageKeyword = None, imageUrl = None\<rparr>])"
proof -
  have "length (buildSlides (paragraphsOf (cleanExtractedText text)) slideCount 0 1 []) \<le> slideCount"
    by (rule buildSlides_length) simp
  with assms show ?thesis
    by (auto simp: textToBasicSlides_def Let_def Suc_le_eq)
qed


theorem textToBasicSlides_count_witness:
  "(1::nat) \<le> 5 \<and>
   50 \<le> length ''Solar energy is clean. Panels convert sunlight into electricity for homes.'' \<and>
   1 \<le> length (slides (textToBasicSlides
          ''Solar energy is clean. Panels convert sunlight into electricity for homes.'' 5)) \<and>
   length (slides (textToBasicSlides
          ''Solar energy is clean. Panels convert sunlight into electricity for homes.'' 5)) \<le> 5 \<and>
   50 \<le> length shortParagraphs \<and>
   length (buildSlides (paragraphsOf (cleanExtractedText shortParagraphs)) 5 0 1 []) = 0 \<and>
   slides (textToBasicSlides shortParagraphs 5) =
     [\<lparr>slideTitle = ''Content Overview'',
       points = Some [take 200 (cleanExtractedText shortParagraphs) @ ''...''],
       imageKeyword = None, imageUrl = None\<rparr>]"
proof -
  have e: "length (buildSlides (paragraphsOf (cleanExtractedText shortParagraphs)) 5 0 1 []) = 0"
    by code_simp
  have l: "50 \<le> length shortParagraphs"
    by (simp add: shortParagraphs_def)
  have one: "(1::nat) \<le> 5" by simp
  from textToBasicSlides_count [OF one, of shortParagraphs] e
  have "slides (textToBasicSlides shortParagraphs 5) =
     [\<lparr>slideTitle = ''Content Overview'',
       points = Some [take 200 (cleanExtractedText shortParagraphs) @ ''...''],
       imageKeyword = None, imageUrl = None\<rparr>]"
    by blast
  with e l textToBasicSlides_count [OF one,
      of "''Solar energy is clean. Panels convert sunlight into electricity for homes.''"]
  show ?thesis by simp
qed

lemma hd_splitOn: "hd (splitOn P s) = takeWhile (\<lambda>c. \<not> P c) s"
  by (induction s) (auto simp: Let_def)

lemma ceilDiv_pos: "0 < a \<Longrightarrow> 0 < b \<Longrightarrow> 0 < ceilDiv a b"
proof -
  assume a: "0 < a" and b: "0 < b"
  then have "b \<le> a + b - 1" by arith
  then have "b div b \<le> (a + b - 1) div b" by (rule div_le_mono)
  with b show ?thesis by (simp add: ceilDiv_def)
qed

lemma groupTitle_rule:
  assumes "i < length ps" and "0 < pps"
  shows "groupTitle (slice i (i + pps) ps) n = titleRule (ps ! i) n"
proof -
  from assms(2) obtain m where m: "pps = Suc m" by (cases pps) auto
  from assms(1) have "drop i ps = ps ! i # drop (Suc i) ps"
    by (simp add: Cons_nth_drop_Suc)
  with m have "slice i (i + pps) ps = ps ! i # take m (drop (Suc i) ps)"
    by (simp add: slice_def)
  then show ?thesis
    by (auto simp: groupTitle_def titleRule_def firstSentence_def hd_splitOn Let_def)
qed

lemma firstParagraph_slice:
  assumes "i < length ps" and "0 < pps"
  shows "firstParagraph (slice i (i + pps) ps) = ps ! i"
proof -
  from assms(2) obtain m where m: "pps = Suc m" by (cases pps) auto
  from assms(1) have "drop i ps = ps ! i # drop (Suc i) ps"
    by (simp add: Cons_nth_drop_Suc)
  with m show ?thesis by (simp add: slice_def firstParagraph_def)
qed

lemma ceilDiv_step:
  assumes "0 < d" and "0 < p"
  shows "ceilDiv d p = Suc (ceilDiv (d - p) p)"
proof -
  from assms(1) obtain e where e: "d = Suc e" by (cases d) auto
  have "(e + p) div p = Suc (e div p)"
    using assms(2) by (simp add: div_add_self2)
  then have a: "ceilDiv d p = Suc (e div p)"
    by (simp add: ceilDiv_def e)
  have "ceilDiv (d - p) p = e div p"
  proof (cases "p \<le> d")
    case True
    with assms(2) e have "d - p + p - 1 = e" by simp
    then show ?thesis by (simp add: ceilDiv_def)
  next
    case False
    with e have "d - p = 0" and "e < p" by simp_all
    with assms(2) show ?thesis by (simp add: ceilDiv_def)
  qed
  with a show ?thesis by simp
qed

lemma ceilDiv_zero: "ceilDiv 0 p = 0"
  by (cases "p = 0") (simp_all add: ceilDiv_def)

text \<open>The loop from any state: the slides pushed so far, then those of the groups left, up to the count.\<close>

lemma buildSlides_from:
  "length acc \<le> sc \<Longrightarrow>
   buildSlides ps sc i cur acc =
     acc @ take (sc - length acc)
       (groupSlidesFrom ps (ceilDiv (length ps) sc) i cur
          (ceilDiv (length ps - i) (ceilDiv (length ps) sc)))"
proof (induction ps sc i cur acc rule: buildSlides.induct)
  case (1 ps sc i cur acc)
  let ?pps = "ceilDiv (length ps) sc"
  show ?case
  proof (cases "i < length ps \<and> length acc < sc")
    case False
    then consider "length ps \<le> i" | "sc \<le> length acc" by linarith
    then show ?thesis
    proof cases
      case 1
      then have "length ps - i = 0" by simp
      then have "groupSlidesFrom ps ?pps i cur (ceilDiv (length ps - i) ?pps) = []"
        by (simp add: ceilDiv_zero)
      moreover have "buildSlides ps sc i cur acc = acc"
        using False by (subst buildSlides.simps) (auto simp: Let_def)
      ultimately show ?thesis by simp
    next
      case 2
      moreover have "buildSlides ps sc i cur acc = acc"
        using False by (subst buildSlides.simps) (auto simp: Let_def)
      ultimately show ?thesis by simp
    qed
  next
    case True
    let ?paras = "slice i (i + ?pps) ps"
    let ?new = "\<lparr>slideTitle = groupTitle ?paras cur, points = Some (groupPoints ?paras),
                  imageKeyword = None, imageUrl = None\<rparr>"
    let ?acc' = "if length (groupPoints ?paras) > 0 then acc @ [?new] else acc"
    let ?m = "ceilDiv (length ps - (i + ?pps)) ?pps"
    from True have pos: "0 < ?pps" by (intro ceilDiv_pos) auto
    have title: "groupTitle ?paras cur = titleRule (firstParagraph ?paras) cur"
      using True pos by (simp add: groupTitle_rule firstParagraph_slice)
    have count: "ceilDiv (length ps - i) ?pps = Suc ?m"
      using ceilDiv_step [of "length ps - i" ?pps] True pos by simp
    have len: "length ?acc' \<le> sc" using True by auto
    have "buildSlides ps sc i cur acc = buildSlides ps sc (i + ?pps) (cur + 1) ?acc'"
      using True by (subst buildSlides.simps) (simp add: Let_def)
    also have "\<dots> = ?acc' @ take (sc - length ?acc')
                  (groupSlidesFrom ps ?pps (i + ?pps) (cur + 1) ?m)"
      using "1.IH" [OF refl True refl refl refl] len by simp
    also have "\<dots> = acc @ take (sc - length acc)
                  (groupSlidesFrom ps ?pps i cur (Suc ?m))"
    proof (cases "length (groupPoints ?paras) > 0")
      case False
      then show ?thesis by simp
    next
      case pts: True
      from True obtain r where r: "sc - length acc = Suc r"
        by (cases "sc - length acc") auto
      then have "sc - length (acc @ [?new]) = r" by simp
      with pts r title show ?thesis by simp
    qed
    finally show ?thesis using count by simp
  qed
qed

lemma groupSlidesFrom_groups:
  "groupSlidesFrom ps pps i cur m =
     map (\<lambda>j. \<lparr>slideTitle = titleRule
                 (firstParagraph (slice (i + j * pps) (i + j * pps + pps) ps)) (cur + j),
               points = Some (groupPoints (slice (i + j * pps) (i + j * pps + pps) ps)),
               imageKeyword = None, imageUrl = None\<rparr>)
       (filter (\<lambda>j. groupPoints (slice (i + j * pps) (i + j * pps + pps) ps) \<noteq> []) [0..<m])"
proof (induction m arbitrary: i cur)
  case 0
  show ?case by simp
next
  case (Suc m)
  have upt: "[0..<Suc m] = 0 # map Suc [0..<m]"
    by (simp add: upt_conv_Cons map_Suc_upt del: upt_Suc)
  show ?case
    unfolding upt groupSlidesFrom.simps Suc.IH
    by (simp add: filter_map comp_def add.assoc add.left_commute del: upt_Suc)
qed

lemma buildSlides_groups:
  "buildSlides ps sc 0 1 [] =
     take sc (map (groupSlide ps sc) (filter (groupHasPoints ps sc) [0..<groupCount ps sc]))"
proof -
  have "buildSlides ps sc 0 1 [] =
      take sc (groupSlidesFrom ps (ceilDiv (length ps) sc) 0 1
        (ceilDiv (length ps) (ceilDiv (length ps) sc)))"
    using buildSlides_from [of "[]" sc ps 0 1] by simp
  moreover have "groupSlide ps sc =
      (\<lambda>j. \<lparr>slideTitle = titleRule (firstParagraph (slice (0 + j * ceilDiv (length ps) sc)
                  (0 + j * ceilDiv (length ps) sc + ceilDiv (length ps) sc) ps)) (1 + j),
               points = Some (groupPoints (slice (0 + j * ceilDiv (length ps) sc)
                  (0 + j * ceilDiv (length ps) sc + ceilDiv (length ps) sc) ps)),
               imageKeyword = None, imageUrl = None\<rparr>)"
    by (rule ext) (simp add: groupSlide_def groupOf_def Let_def)
  moreover have "groupHasPoints ps sc =
      (\<lambda>j. groupPoints (slice (0 + j * ceilDiv (length ps) sc)
                  (0 + j * ceilDiv (length ps) sc + ceilDiv (length ps) sc) ps) \<noteq> [])"
    by (rule ext) (simp add: groupHasPoints_def groupOf_def Let_def)
  ultimately show ?thesis
    by (simp only: groupSlidesFrom_groups groupCount_def)
qed

text \<open>Every group in range is non-empty and begins at paragraph \<open>k * ceil(length ps / sc)\<close>.\<close>

lemma groupOf_first:
  assumes "k < groupCount ps sc"
  shows "k * ceilDiv (length ps) sc < length ps \<and>
         firstParagraph (groupOf ps sc k) = ps ! (k * ceilDiv (length ps) sc)"
proof -
  let ?p = "ceilDiv (length ps) sc"
  have p: "0 < ?p"
  proof (rule ccontr)
    assume "\<not> 0 < ?p"
    then have "groupCount ps sc = 0" by (simp add: groupCount_def ceilDiv_def)
    with assms show False by simp
  qed
  from assms have "Suc k \<le> (length ps + ?p - 1) div ?p"
    by (simp add: groupCount_def ceilDiv_def)
  then have "Suc k * ?p \<le> length ps + ?p - 1"
    using p by (simp add: less_eq_div_iff_mult_less_eq)
  then have lt: "k * ?p < length ps" using p by simp
  then show ?thesis
    using p by (simp add: groupOf_def Let_def firstParagraph_slice)
qed

text \<open>The deck of the builder in terms of the groups.\<close>

lemma textToBasicSlides_groups:
  "slides (textToBasicSlides text sc) =
     (let ps = paragraphsOf (cleanExtractedText text);
          built = take sc (map (groupSlide ps sc) (filter (groupHasPoints ps sc) [0..<groupCount ps sc]))
      in if built = []
         then [\<lparr>slideTitle = ''Content Overview'',
                 points = Some [take 200 (cleanExtractedText text) @ ''...''],
                 imageKeyword = None, imageUrl = None\<rparr>]
         else built)"
proof -
  have e: "take sc (map (groupSlide (paragraphsOf (cleanExtractedText text)) sc)
             (filter (groupHasPoints (paragraphsOf (cleanExtractedText text)) sc)
                [0..<groupCount (paragraphsOf (cleanExtractedText text)) sc]))
           = buildSlides (paragraphsOf (cleanExtractedText text)) sc 0 1 []"
    by (rule buildSlides_groups [symmetric])
  show ?thesis
    unfolding Let_def e by (simp add: textToBasicSlides_def Let_def)
qed




subsection \<open>Image resolution\<close>

lemma unsplash_inject: "unsplash a = unsplash b \<longleftrightarrow> a = b"
  by (simp add: unsplash_def)

lemma lower_fiber:
  "toLowerCase (cleanKeywordOf ''fiber optic cables'') = ''fiber optic cables''"
  by code_simp

lemma firstMatch_fiber:
  "firstMatch ''fiber optic cables'' imageMapping
     = Some (''cable'', unsplash ''1544197150-b99a580bb7a8'')"
  by (simp add: imageMapping_def)

text \<open>
  C5 (amended). Image resolution applied to the keyword ``fiber optic cables'' returns the URL
  of the ``cable'' table entry: the keys declared before it (network, technology, computer,
  data, server) are not contained in the keyword, ``cable'' is (in ``cables'') and is declared
  before ``fiber'', so the first match in declaration order is ``cable''. The URL comes from
  the table match, not from the hash-selected fallback pool.
\<close>

theorem fiber_optic_cables_resolves_to_cable:
  "map fst (takeWhile (\<lambda>(key, url). \<not> includesStr ''fiber optic cables'' key) imageMapping)
     = [''network'', ''technology'', ''computer'', ''data'', ''server''] \<and>
   firstMatch (toLowerCase (cleanKeywordOf ''fiber optic cables'')) imageMapping
     = Some (''cable'', unsplash ''1544197150-b99a580bb7a8'') \<and>
   map_of imageMapping ''cable'' = Some (unsplash ''1544197150-b99a580bb7a8'') \<and>
   fetchImageForSlide ''fiber optic cables'' = unsplash ''1544197150-b99a580bb7a8''"
proof -
  have "map_of imageMapping ''cable'' = Some (unsplash ''1544197150-b99a580bb7a8'')"
    by (simp add: imageMapping_def)
  moreover have "map fst (takeWhile (\<lambda>(key, url). \<not> includesStr ''fiber optic cables'' key)
      imageMapping) = [''network'', ''technology'', ''computer'', ''data'', ''server'']"
    by (simp add: imageMapping_def)
  ultimately show ?thesis
    by (simp add: fetchImageForSlide_def Let_def lower_fiber firstMatch_fiber)
qed

text \<open>
  C5 as stated fails: the URL returned for ``fiber optic cables'' is not the one of the
  ``fiber'' table entry.
\<close>

theorem fiber_optic_cables_not_fiber:
  "map_of imageMapping ''fiber'' = Some (unsplash ''1516044734145-07ca8eef8731'') \<and>
   fetchImageForSlide ''fiber optic cables'' \<noteq> unsplash ''1516044734145-07ca8eef8731''"
proof -
  have "map_of imageMapping ''fiber'' = Some (unsplash ''1516044734145-07ca8eef8731'')"
    by (simp add: imageMapping_def)
  then show ?thesis
    by (simp add: fetchImageForSlide_def Let_def lower_fiber firstMatch_fiber unsplash_inject)
qed

subsection \<open>Layout selection\<close>

text \<open>
  C1. Layout selection depends only on the slide index, the total slide count, whether the
  slide has a resolved image and its bullet count, and it follows the fixed priority order
  of the specification: index 0 gives the full-image title layout, the last index the clean
  summary, an image with at most three bullets the image-dominant concept layout, an image
  with more bullets the right split on even and the left split on odd indices, and no image
  the gradient background. Being a function of these four values, two selections on the same
  inputs agree.
\<close>

theorem determineSlideLayout_policy:
  "determineSlideLayout index totalSlides slideData =
     layoutPolicy index totalSlides (hasImage slideData) (pointCount slideData)"
  unfolding determineSlideLayout_def layoutPolicy_def
  by (simp add: even_iff_mod_2_eq_zero)

subsection \<open>Rendering\<close>

lemma contentSlides_length:
  "length (contentSlides fetch theme totalSlides index xs) = length xs"
  by (induction xs arbitrary: index) auto

text \<open>
  C2. For every deck and every theme name the renderer resolves to a theme (every name that
  is not a property inherited from \<open>Object.prototype\<close>), rendering returns a document
  with exactly \<open>deck.slides.length + 2\<close> slides: the title slide, one slide per content
  slide and the closing slide. A deck of 1 slide renders to 3 slides and a deck of 20 to 22.
\<close>

theorem generatePowerPoint_slide_count:
  assumes "themeName \<notin> set objectPrototypeKeys"
  shows "\<exists>p. generatePowerPoint fetch today deck themeName = Inr p \<and>
             length (pptxSlides p) = length (slides deck) + 2"
proof -
  from assms obtain theme where "resolveTheme themeName = ThemeObject theme"
    by (cases "map_of THEMES themeName") (auto simp: resolveTheme_def)
  then show ?thesis
    by (simp add: generatePowerPoint_def Let_def contentSlides_length)
qed

theorem generatePowerPoint_slide_count_witness:
  "''professional'' \<notin> set objectPrototypeKeys \<and>
   (\<exists>p. generatePowerPoint (\<lambda>u. NotOk) ''November 2, 2026''
          \<lparr>title = ''Solar'', slides = [exampleSlide]\<rparr> ''professional'' = Inr p \<and>
        length (pptxSlides p) = 3) \<and>
   (\<exists>p. generatePowerPoint (\<lambda>u. NotOk) ''November 2, 2026''
          \<lparr>title = ''Solar'', slides = replicate 20 exampleSlide\<rparr> ''professional'' = Inr p \<and>
        length (pptxSlides p) = 22)"
proof -
  have h: "''professional'' \<notin> set objectPrototypeKeys"
    by (simp add: objectPrototypeKeys_def)
  obtain p where p: "generatePowerPoint (\<lambda>u. NotOk) ''November 2, 2026''
      \<lparr>title = ''Solar'', slides = [exampleSlide]\<rparr> ''professional'' = Inr p"
      "length (pptxSlides p) = length (slides \<lparr>title = ''Solar'', slides = [exampleSlide]\<rparr>) + 2"
    using generatePowerPoint_slide_count [OF h] by blast
  obtain q where q: "generatePowerPoint (\<lambda>u. NotOk) ''November 2, 2026''
      \<lparr>title = ''Solar'', slides = replicate 20 exampleSlide\<rparr> ''professional'' = Inr q"
      "length (pptxSlides q)
         = length (slides \<lparr>title = ''Solar'', slides = replicate 20 exampleSlide\<rparr>) + 2"
    using generatePowerPoint_slide_count [OF h] by blast
  from p(2) have "length (pptxSlides p) = 3" by simp
  moreover from q(2) have "length (pptxSlides q) = 22" by simp
  ultimately show ?thesis using h p(1) q(1) by blast
qed

lemma resolveTheme_registered:
  "map_of THEMES themeName = Some theme \<Longrightarrow> resolveTheme themeName = ThemeObject theme"
  by (simp add: resolveTheme_def)

lemma resolveTheme_unknown:
  "map_of THEMES themeName = None \<Longrightarrow> themeName \<notin> set objectPrototypeKeys \<Longrightarrow>
   resolveTheme themeName = ThemeObject professionalTheme"
  by (simp add: resolveTheme_def)

lemma resolveTheme_nonexistent: "resolveTheme ''nonexistent'' = ThemeObject professionalTheme"
  by (simp add: resolveTheme_def THEMES_def objectPrototypeKeys_def)

text \<open>
  C7, at a theme name the code mishandles. The name ``constructor'' is not in the registry,
  yet the property read finds the member inherited from \<open>Object.prototype\<close>, the default
  theme is not substituted, and rendering raises instead of returning a document. Names that
  are in the registry, and unknown names that are not inherited, select the registered and
  the default theme (\<open>resolveTheme_registered\<close>, \<open>resolveTheme_unknown\<close>).
\<close>

theorem inherited_theme_name_raises:
  "resolveTheme ''constructor'' = InheritedMember \<and>
   generatePowerPoint fetch today deck ''constructor'' = Inl TypeError"
proof -
  have "resolveTheme ''constructor'' = InheritedMember"
    by (simp add: resolveTheme_def THEMES_def objectPrototypeKeys_def)
  then show ?thesis by (simp add: generatePowerPoint_def)
qed

lemma elements_addElement: "elements (addElement e c) = elements c @ [e]"
  by (simp add: addElement_def)

lemma elements_addBullets:
  "list_ex isImageEl (elements (addBullets t sd b f col c)) = list_ex isImageEl (elements c)"
  by (simp add: addBullets_def elements_addElement split: option.splits)

lemma elements_addGradientBackground:
  "list_ex isImageEl (elements (addGradientBackground c theme)) = list_ex isImageEl (elements c)"
  by (simp add: addGradientBackground_def elements_addElement split: background.splits)

lemma applyLayout_no_image:
  "\<not> list_ex isImageEl (elements (applyLayout l newSlide sd None theme index totalSlides))"
proof (cases l)
  case SPLIT_RIGHT_IMAGE
  then show ?thesis
    by (simp add: applyLayout_def createSplitRightImageSlide_def Let_def elements_addElement
        elements_addBullets newSlide_def)
next
  case SPLIT_LEFT_IMAGE
  then show ?thesis
    by (simp add: applyLayout_def createSplitLeftImageSlide_def Let_def elements_addElement
        elements_addBullets newSlide_def)
next
  case CONCEPT_IMAGE_DOMINANT
  then show ?thesis
    by (simp add: applyLayout_def createConceptDominantSlide_def Let_def elements_addElement
        elements_addGradientBackground newSlide_def split: option.splits)
next
  case SUMMARY_CLEAN
  then show ?thesis
    by (simp add: applyLayout_def createSummarySlide_def Let_def elements_addElement
        elements_addBullets elements_addGradientBackground newSlide_def)
next
  case TITLE_FULL_IMAGE
  then show ?thesis
    by (simp add: applyLayout_def createGradientBackgroundSlide_def Let_def elements_addElement
        elements_addBullets elements_addGradientBackground newSlide_def)
next
  case FULL_WIDTH_TOP_IMAGE
  then show ?thesis
    by (simp add: applyLayout_def createGradientBackgroundSlide_def Let_def elements_addElement
        elements_addBullets elements_addGradientBackground newSlide_def)
next
  case GRADIENT_BACKGROUND
  then show ?thesis
    by (simp add: applyLayout_def createGradientBackgroundSlide_def Let_def elements_addElement
        elements_addBullets elements_addGradientBackground newSlide_def)
qed

text \<open>
  C6 (amended). For every slide carrying an image URL whose fetch fails (it throws, times
  out or answers with a status that is not ok), the renderer keeps the layout selected from
  the presence of the URL and renders it with its non-image treatment: no image element is
  drawn. The render of the whole deck still completes with all its slides, whatever the
  fetches do.
\<close>

theorem failed_image_keeps_layout:
  assumes "imageUrl slideData = Some u" and "downloadImageAsBase64 fetch u = None"
  shows "contentSlide fetch theme totalSlides index slideData
           = addSlideNumber theme index
               (applyLayout (determineSlideLayout (int index) (int totalSlides) slideData)
                  newSlide slideData None theme index totalSlides) \<and>
         \<not> list_ex isImageEl (elements (contentSlide fetch theme totalSlides index slideData)) \<and>
         (\<forall>today deck themeName. themeName \<notin> set objectPrototypeKeys \<longrightarrow>
            (\<exists>p. generatePowerPoint fetch today deck themeName = Inr p \<and>
                 length (pptxSlides p) = length (slides deck) + 2))"
proof -
  have 1: "contentSlide fetch theme totalSlides index slideData
           = addSlideNumber theme index
               (applyLayout (determineSlideLayout (int index) (int totalSlides) slideData)
                  newSlide slideData None theme index totalSlides)"
    using assms by (simp add: contentSlide_def Let_def)
  have 2: "\<not> list_ex isImageEl (elements (contentSlide fetch theme totalSlides index slideData))"
    unfolding 1 using applyLayout_no_image
    by (simp add: addSlideNumber_def elements_addElement)
  have 3: "\<exists>p. generatePowerPoint fetch today deck themeName = Inr p \<and>
               length (pptxSlides p) = length (slides deck) + 2"
    if "themeName \<notin> set objectPrototypeKeys" for today deck themeName
  proof -
    from that obtain theme' where "resolveTheme themeName = ThemeObject theme'"
      by (cases "map_of THEMES themeName") (auto simp: resolveTheme_def)
    then show ?thesis
      by (simp add: generatePowerPoint_def Let_def contentSlides_length)
  qed
  from 1 2 3 show ?thesis by blast
qed

lemma fiberSlide_download_fails:
  "downloadImageAsBase64 (\<lambda>u. FetchThrows) ''https://example.org/fiber.png'' = None"
  by (simp add: downloadImageAsBase64_def)

theorem failed_image_keeps_layout_witness:
  "imageUrl fiberSlide = Some ''https://example.org/fiber.png'' \<and>
   downloadImageAsBase64 (\<lambda>u. FetchThrows) ''https://example.org/fiber.png'' = None \<and>
   contentSlide (\<lambda>u. FetchThrows) professionalTheme 3 1 fiberSlide
     = addSlideNumber professionalTheme 1
         (applyLayout (determineSlideLayout (int 1) (int 3) fiberSlide)
            newSlide fiberSlide None professionalTheme 1 3) \<and>
   \<not> list_ex isImageEl (elements (contentSlide (\<lambda>u. FetchThrows) professionalTheme 3 1 fiberSlide)) \<and>
   ''professional'' \<notin> set objectPrototypeKeys \<and>
   (\<exists>p. generatePowerPoint (\<lambda>u. FetchThrows) ''November 2, 2026''
          \<lparr>title = ''Networks'', slides = [fiberSlide, fiberSlide, fiberSlide]\<rparr> ''professional''
          = Inr p \<and> length (pptxSlides p) = 5)"
proof -
  have a: "imageUrl fiberSlide = Some ''https://example.org/fiber.png''"
    by (simp add: fiberSlide_def)
  have h: "''professional'' \<notin> set objectPrototypeKeys"
    by (simp add: objectPrototypeKeys_def)
  note t = failed_image_keeps_layout [OF a fiberSlide_download_fails,
      of professionalTheme 3 1]
  from t h obtain p where p: "generatePowerPoint (\<lambda>u. FetchThrows) ''November 2, 2026''
          \<lparr>title = ''Networks'', slides = [fiberSlide, fiberSlide, fiberSlide]\<rparr> ''professional''
          = Inr p"
    "length (pptxSlides p)
       = length (slides \<lparr>title = ''Networks'', slides = [fiberSlide, fiberSlide, fiberSlide]\<rparr>) + 2"
    by blast
  from p(2) have "length (pptxSlides p) = 5" by simp
  with p(1) have "\<exists>p. generatePowerPoint (\<lambda>u. FetchThrows) ''November 2, 2026''
          \<lparr>title = ''Networks'', slides = [fiberSlide, fiberSlide, fiberSlide]\<rparr> ''professional''
          = Inr p \<and> length (pptxSlides p) = 5"
    by blast
  with a h fiberSlide_download_fails t show ?thesis by blast
qed

text \<open>
  C6 as stated fails: a slide with an image URL and four points at index 1 of 3 keeps the
  left split layout when its fetch fails, and the slide drawn is not the one the
  gradient-background renderer draws.
\<close>

theorem failed_image_not_gradient_layout:
  "imageUrl fiberSlide = Some ''https://example.org/fiber.png'' \<and>
   downloadImageAsBase64 (\<lambda>u. FetchThrows) ''https://example.org/fiber.png'' = None \<and>
   determineSlideLayout 1 3 fiberSlide = SPLIT_LEFT_IMAGE \<and>
   contentSlide (\<lambda>u. FetchThrows) professionalTheme 3 1 fiberSlide
     \<noteq> addSlideNumber professionalTheme 1
         (createGradientBackgroundSlide newSlide fiberSlide professionalTheme 1)"
proof -
  have l: "determineSlideLayout 1 3 fiberSlide = SPLIT_LEFT_IMAGE"
    by (simp add: determineSlideLayout_def hasImage_def pointCount_def fiberSlide_def)
  have "background (contentSlide (\<lambda>u. FetchThrows) professionalTheme 3 1 fiberSlide) = Some ''F8FAFC''"
    using l by (simp add: contentSlide_def Let_def fiberSlide_download_fails applyLayout_def
       createSplitLeftImageSlide_def addSlideNumber_def addElement_def addBullets_def
       baseColor_def professionalTheme_def newSlide_def fiberSlide_def)
  moreover have "length (elements (contentSlide (\<lambda>u. FetchThrows) professionalTheme 3 1 fiberSlide)) = 5"
    using l by (simp add: contentSlide_def Let_def fiberSlide_download_fails applyLayout_def
       createSplitLeftImageSlide_def addSlideNumber_def addElement_def addBullets_def
       baseColor_def professionalTheme_def newSlide_def fiberSlide_def)
  moreover have "length (elements (addSlideNumber professionalTheme 1
         (createGradientBackgroundSlide newSlide fiberSlide professionalTheme 1))) = 8"
    by (simp add: createGradientBackgroundSlide_def addSlideNumber_def addElement_def
       addBullets_def addGradientBackground_def Let_def
       professionalTheme_def newSlide_def fiberSlide_def)
  ultimately show ?thesis
    using l by (auto simp: fiberSlide_def fiberSlide_download_fails)
qed

subsection \<open>Generate controller\<close>

lemma clampSlideCount_range: "1 \<le> clampSlideCount parsed \<and> clampSlideCount parsed \<le> 20"
  by (simp add: clampSlideCount_def)

lemma requestedSlides_range: "1 \<le> requestedSlides v \<and> requestedSlides v \<le> 20"
  by (simp add: requestedSlides_def clampSlideCount_range)

lemma clampSlideCount_nonzero:
  "k \<noteq> 0 \<Longrightarrow> clampSlideCount (Some k) = (if k < 1 then 1 else if 20 < k then 20 else k)"
  by (simp add: clampSlideCount_def)

lemma requestedSlides_examples:
  "requestedSlides (Some ''-3'') = 1" "requestedSlides (Some ''25'') = 20"
  "requestedSlides (Some ''7'') = 7" "requestedSlides (Some ''abc'') = 5"
  by code_simp+

lemma requestedSlides_default:
  "requestedSlides None = 5" "parseInt v = None \<Longrightarrow> requestedSlides (Some v) = 5"
  by (simp_all add: requestedSlides_def clampSlideCount_def)

text \<open>
  C10, at a value the code mishandles. The slide count 0 is below 1 and is to become 1;
  \<open>parseInt\<close> returns 0, which is falsy, so the default 5 replaces it before the
  clamp. The result is always within 1 to 20 (\<open>requestedSlides_range\<close>), every other
  integer is clamped (\<open>clampSlideCount_nonzero\<close>) and a missing or unparsable value gives 5
  (\<open>requestedSlides_default\<close>).
\<close>

theorem zero_slide_count_becomes_five:
  "parseInt ''0'' = Some 0 \<and> requestedSlides (Some ''0'') = 5"
  by code_simp

lemma generateFromText_failure:
  assumes "length (trim text) \<noteq> 0" and "50 \<le> length text" and "length text \<le> 50000"
    and "generatePresentation text (requestedSlides slideCount) = Inl message"
  shows "generateFromText generatePresentation text slideCount
           = AppError 500 (''Failed to generate presentation: '' @ message)"
  using assms by (auto simp: generateFromText_def Let_def)

lemma generateFromTopic_failure:
  assumes "length (trim topic) \<noteq> 0" and "3 \<le> length topic" and "length topic \<le> 500"
    and "generatePresentation (topicPrompt topic audience style (requestedSlides slideCount))
           (requestedSlides slideCount) = Inl message"
  shows "generateFromTopic generatePresentation topic slideCount audience style
           = AppError 500 (''Failed to generate presentation: '' @ message)"
  using assms by (auto simp: generateFromTopic_def Let_def)

lemma generateFromPDF_fallback:
  assumes "50 \<le> length (cleanExtractedText text)"
    and "generatePresentation (cleanExtractedText text) (requestedSlides slideCount) = Inl message"
  shows "generateFromPDF generatePresentation (Some (Extracted text infoTitle)) slideCount True
           = Json (textToBasicSlides (cleanExtractedText text) (nat (requestedSlides slideCount)))"
  using assms by (simp add: generateFromPDF_def Let_def)

text \<open>
  C3, at a request the code mishandles. A text request whose generation fails is answered
  with status 500 and the failure message; no fallback deck is built. The PDF endpoint does
  recover with the text fallback builder (\<open>generateFromPDF_fallback\<close>); the topic
  endpoint surfaces the failure as the text endpoint does (\<open>generateFromTopic_failure\<close>).
\<close>

theorem generateFromText_surfaces_failure:
  "generateFromText (\<lambda>content n. Inl ''Gemini API Error: fetch failed'')
     ''Solar energy is clean. Panels convert sunlight into electricity for homes.'' (Some ''5'')
   = AppError 500 ''Failed to generate presentation: Gemini API Error: fetch failed''"
proof -
  have "trim ''Solar energy is clean. Panels convert sunlight into electricity for homes.''
          = ''Solar energy is clean. Panels convert sunlight into electricity for homes.''"
    by code_simp
  then show ?thesis
    by (simp add: generateFromText_def Let_def)
qed

end
